theory Spec2Isabelle
  imports Complex_Main "HOL-Library.Word" "HOL-Library.Sublist"
begin

section \<open>JavaScript values used by the component\<close>

text \<open>
  The development embeds \<^verbatim>\<open>src/components/PDFViewer.tsx\<close>: the React state of the
  component, its three event handlers (\<^verbatim>\<open>onDrop\<close>, \<^verbatim>\<open>handleTemplateFieldAdd\<close>,
  \<^verbatim>\<open>generatePDFs\<close>) and the JavaScript operations they rely on.

  A JavaScript number is a finite value, one of the two infinities, or NaN. The finite
  values are taken to be the reals: rounding to binary64, overflow and the sign of zero
  are not represented. Division keeps what JavaScript does with a zero divisor, which
  HOL's own division (\<open>a / 0 = 0\<close>) would hide.
\<close>

datatype jsnum = Fin real | PInf | NInf | NaN

fun js_sub :: "jsnum \<Rightarrow> jsnum \<Rightarrow> jsnum" where
  "js_sub NaN b = NaN"
| "js_sub a NaN = NaN"
| "js_sub (Fin a) (Fin b) = Fin (a - b)"
| "js_sub (Fin a) PInf = NInf"
| "js_sub (Fin a) NInf = PInf"
| "js_sub PInf PInf = NaN"
| "js_sub PInf b = PInf"
| "js_sub NInf NInf = NaN"
| "js_sub NInf b = NInf"

fun js_mul :: "jsnum \<Rightarrow> jsnum \<Rightarrow> jsnum" where
  "js_mul NaN b = NaN"
| "js_mul a NaN = NaN"
| "js_mul (Fin a) (Fin b) = Fin (a * b)"
| "js_mul (Fin a) PInf = (if a = 0 then NaN else if 0 < a then PInf else NInf)"
| "js_mul (Fin a) NInf = (if a = 0 then NaN else if 0 < a then NInf else PInf)"
| "js_mul PInf (Fin b) = (if b = 0 then NaN else if 0 < b then PInf else NInf)"
| "js_mul NInf (Fin b) = (if b = 0 then NaN else if 0 < b then NInf else PInf)"
| "js_mul PInf PInf = PInf"
| "js_mul PInf NInf = NInf"
| "js_mul NInf PInf = NInf"
| "js_mul NInf NInf = PInf"

fun js_div :: "jsnum \<Rightarrow> jsnum \<Rightarrow> jsnum" where
  "js_div NaN b = NaN"
| "js_div a NaN = NaN"
| "js_div (Fin a) (Fin b) =
     (if b \<noteq> 0 then Fin (a / b)
      else if a = 0 then NaN
      else if 0 < a then PInf else NInf)"
| "js_div (Fin a) PInf = Fin 0"
| "js_div (Fin a) NInf = Fin 0"
| "js_div PInf (Fin b) = (if 0 \<le> b then PInf else NInf)"
| "js_div NInf (Fin b) = (if 0 \<le> b then NInf else PInf)"
| "js_div PInf PInf = NaN"
| "js_div PInf NInf = NaN"
| "js_div NInf PInf = NaN"
| "js_div NInf NInf = NaN"

section \<open>Component state\<close>

type_synonym byte = "8 word"

text \<open>\<^verbatim>\<open>interface TemplateField { x: number; y: number; fieldName: string }\<close>\<close>

record TemplateField =
  fieldX :: jsnum
  fieldY :: jsnum
  fieldName :: string

text \<open>
  A row of \<^verbatim>\<open>csvData\<close> is the object the CSV parser builds for one record
  (\<^verbatim>\<open>header: true\<close>, no dynamic typing): its own properties, in the order they were
  created, each holding a string.
\<close>

type_synonym row = "(string \<times> string) list"

text \<open>The five \<^verbatim>\<open>useState\<close> cells of the component. \<^verbatim>\<open>null\<close> is \<open>None\<close>.\<close>

record session =
  pdfFile :: "string option"
  templateFields :: "TemplateField list"
  csvData :: "row list"
  isTemplateMode :: bool
  templatePdfBytes :: "byte list option"

section \<open>Uploading a PDF\<close>

text \<open>
  \<^verbatim>\<open>onDrop\<close> of the dropzone. A dropped file is its content; \<open>createObjectURL\<close> is
  the browser's \<^verbatim>\<open>URL.createObjectURL\<close>.
\<close>

type_synonym pdf_file = "byte list"

definition arrayBuffer :: "pdf_file \<Rightarrow> byte list" where
  "arrayBuffer f = f"

definition onDrop :: "(pdf_file \<Rightarrow> string) \<Rightarrow> session \<Rightarrow> pdf_file list \<Rightarrow> session" where
  "onDrop createObjectURL s acceptedFiles =
     (if length acceptedFiles > 0 then
        (let f = hd acceptedFiles;
             fileUrl = createObjectURL f;
             s1 = s\<lparr>pdfFile := Some fileUrl\<rparr>
         in if isTemplateMode s
            then s1\<lparr>templatePdfBytes := Some (arrayBuffer f)\<rparr>
            else s1)
      else s)"

section \<open>Placing a field\<close>

text \<open>
  The click event as the handler reads it: the pointer position and the bounding
  rectangle of \<^verbatim>\<open>event.currentTarget\<close>. All six are finite numbers.
\<close>

record DOMRect =
  rectLeft :: real
  rectTop :: real
  rectWidth :: real
  rectHeight :: real

record MouseEvent =
  clientX :: real
  clientY :: real
  currentTargetRect :: DOMRect

text \<open>
  \<^verbatim>\<open>handleTemplateFieldAdd\<close>. \<open>answer\<close> is what \<^verbatim>\<open>prompt\<close> returns: \<open>None\<close> for
  \<^verbatim>\<open>null\<close> (the dialog was cancelled). \<^verbatim>\<open>if (fieldName)\<close> is false for \<^verbatim>\<open>null\<close> and
  for the empty string.
\<close>

definition handleTemplateFieldAdd :: "session \<Rightarrow> MouseEvent \<Rightarrow> string option \<Rightarrow> session" where
  "handleTemplateFieldAdd s event answer =
     (if \<not> isTemplateMode s then s
      else
        (let rect = currentTargetRect event;
             x = js_mul (js_div (js_sub (Fin (clientX event)) (Fin (rectLeft rect)))
                                (Fin (rectWidth rect))) (Fin 100);
             y = js_mul (js_div (js_sub (Fin (clientY event)) (Fin (rectTop rect)))
                                (Fin (rectHeight rect))) (Fin 100)
         in case answer of
              None \<Rightarrow> s
            | Some name \<Rightarrow>
                if name = [] then s
                else s\<lparr>templateFields :=
                         templateFields s @ [\<lparr>fieldX = x, fieldY = y, fieldName = name\<rparr>]\<rparr>))"

text \<open>
  A click on the viewer container. The container exists only while a file is shown
  (\<^verbatim>\<open>pdfFile\<close> is set), and its \<^verbatim>\<open>onClick\<close> is
  \<^verbatim>\<open>isTemplateMode ? handleTemplateFieldAdd : undefined\<close>.
\<close>

definition viewerClick :: "session \<Rightarrow> MouseEvent \<Rightarrow> string option \<Rightarrow> session" where
  "viewerClick s event answer =
     (if pdfFile s = None then s
      else if isTemplateMode s then handleTemplateFieldAdd s event answer
      else s)"

text \<open>A click position strictly inside the bounding rectangle.\<close>

definition strictlyInside :: "MouseEvent \<Rightarrow> bool" where
  "strictlyInside event =
     (let rect = currentTargetRect event
      in rectLeft rect < clientX event \<and> clientX event < rectLeft rect + rectWidth rect
       \<and> rectTop rect < clientY event \<and> clientY event < rectTop rect + rectHeight rect)"

text \<open>The closed interval of percentages, on JavaScript numbers.\<close>

fun inPercentRange :: "jsnum \<Rightarrow> bool" where
  "inPercentRange (Fin v) = (0 \<le> v \<and> v \<le> 100)"
| "inPercentRange PInf = False"
| "inPercentRange NInf = False"
| "inPercentRange NaN = False"

section \<open>Rows as JavaScript objects\<close>

text \<open>
  What reading a property of a row can give: a string of the row's own, \<^verbatim>\<open>undefined\<close>,
  or a member the row inherits from \<^verbatim>\<open>Object.prototype\<close> (the parser builds each row
  as a plain object literal), which is a function or an object and never a string.
\<close>

datatype jsval = Str string | Undefined | ProtoMember string

text \<open>The property names every plain object inherits from \<^verbatim>\<open>Object.prototype\<close>.\<close>

definition objectPrototypeKeys :: "string list" where
  "objectPrototypeKeys =
     [''constructor'', ''hasOwnProperty'', ''isPrototypeOf'', ''propertyIsEnumerable'',
      ''toLocaleString'', ''toString'', ''valueOf'', ''__proto__'',
      ''__defineGetter__'', ''__defineSetter__'', ''__lookupGetter__'', ''__lookupSetter__'']"

text \<open>\<^verbatim>\<open>row[key]\<close>: the own property if there is one, else the inherited one, else
  \<^verbatim>\<open>undefined\<close>.\<close>

definition js_get :: "row \<Rightarrow> string \<Rightarrow> jsval" where
  "js_get r k =
     (case map_of r k of
        Some v \<Rightarrow> Str v
      | None \<Rightarrow> if k \<in> set objectPrototypeKeys then ProtoMember k else Undefined)"

fun truthy :: "jsval \<Rightarrow> bool" where
  "truthy (Str v) = (v \<noteq> [])"
| "truthy Undefined = False"
| "truthy (ProtoMember k) = True"

text \<open>\<^verbatim>\<open>a || b\<close>\<close>

definition js_or :: "jsval \<Rightarrow> jsval \<Rightarrow> jsval" where
  "js_or a b = (if truthy a then a else b)"

text \<open>
  String conversion, as a template literal and a property key apply it. The text of a
  built-in function is the engine's own; it is never reached by this component, which
  converts only own string values and \<^verbatim>\<open>undefined\<close>.
\<close>

fun js_to_string :: "jsval \<Rightarrow> string" where
  "js_to_string (Str v) = v"
| "js_to_string Undefined = ''undefined''"
| "js_to_string (ProtoMember k) =
     (if k = ''__proto__'' then ''[object Object]''
      else ''function '' @ k @ ''() { [native code] }'')"

text \<open>
  \<^verbatim>\<open>Object.keys\<close> lists the keys that are array indices first, in ascending numeric
  order, and the other keys after them in the order of their creation. An array index
  is the decimal numeral, without a leading zero, of an integer below \<open>2^32 - 1\<close>.
\<close>

definition isDigit :: "char \<Rightarrow> bool" where
  "isDigit c = (c \<in> set ''0123456789'')"

definition indexValue :: "string \<Rightarrow> nat" where
  "indexValue k = foldl (\<lambda>n c. 10 * n + (of_char c - 48)) 0 k"

definition isArrayIndex :: "string \<Rightarrow> bool" where
  "isArrayIndex k =
     (k \<noteq> [] \<and> list_all isDigit k \<and> (k = ''0'' \<or> hd k \<noteq> CHR ''0'')
      \<and> indexValue k < 4294967295)"

definition objectKeys :: "row \<Rightarrow> string list" where
  "objectKeys r =
     (let ks = map fst r
      in sort_key indexValue (filter isArrayIndex ks) @ filter (\<lambda>k. \<not> isArrayIndex k) ks)"

text \<open>\<^verbatim>\<open>`generated_${row[Object.keys(row)[0]]}.pdf`\<close>; element 0 of an empty array is
  \<^verbatim>\<open>undefined\<close>.\<close>

definition downloadName :: "row \<Rightarrow> string" where
  "downloadName r =
     (let firstKey = (case objectKeys r of [] \<Rightarrow> Undefined | k # ks \<Rightarrow> Str k)
      in ''generated_'' @ js_to_string (js_get r (js_to_string firstKey)) @ ''.pdf'')"

section \<open>The document library and the effects of generation\<close>

text \<open>
  The PDF library is a parameter: documents \<open>'d\<close> and fonts \<open>'f\<close> are its own, and
  each call either returns or throws (\<open>None\<close>). A document is updated in place by
  \<^verbatim>\<open>embedFont\<close> and \<^verbatim>\<open>drawText\<close>, so these return the updated document.
  \<open>lib_firstPageSize\<close> is \<^verbatim>\<open>getPages()[0].getSize()\<close>: \<open>None\<close> when the document has
  no first page.
\<close>

record 'f draw_options =
  optX :: jsnum
  optY :: jsnum
  optSize :: nat
  optFont :: 'f
  optColor :: "nat \<times> nat \<times> nat"

record ('d, 'f) pdflib =
  lib_load :: "byte list \<Rightarrow> 'd option"
  lib_embedFont :: "'d \<Rightarrow> ('d \<times> 'f) option"
  lib_firstPageSize :: "'d \<Rightarrow> (real \<times> real) option"
  lib_drawText :: "'d \<Rightarrow> jsval \<Rightarrow> 'f draw_options \<Rightarrow> 'd option"
  lib_save :: "'d \<Rightarrow> byte list option"

text \<open>What the handler does to the outside world, in the order it does it.\<close>

datatype 'f effect =
    Alert string
  | ConsoleError string
  | Load "byte list"
  | EmbedFont
  | DrawText jsval "'f draw_options"
  | Save
  | Download string "byte list"

text \<open>
  A computation that may throw: the effects so far, and the value (\<open>None\<close> once an
  exception is in flight). \<open>call\<close> is one library call, \<open>andThen\<close> is sequencing.
\<close>

type_synonym ('f, 'a) exec = "'f effect list \<times> 'a option"

definition call :: "'f effect \<Rightarrow> 'a option \<Rightarrow> ('f, 'a) exec" where
  "call e r = ([e], r)"

definition andThen :: "('f, 'a) exec \<Rightarrow> ('a \<Rightarrow> ('f, 'b) exec) \<Rightarrow> ('f, 'b) exec" where
  "andThen m k =
     (case m of
        (es, None) \<Rightarrow> (es, None)
      | (es, Some a) \<Rightarrow> (case k a of (es', r) \<Rightarrow> (es @ es', r)))"

section \<open>Generating the documents\<close>

definition preconditionNotice :: string where
  "preconditionNotice =
     ''Please ensure you have a template PDF, CSV data, and template fields set''"

definition failureNotice :: string where
  "failureNotice = ''Error generating PDFs. Please check the console for details.''"

text \<open>
  The body of the inner loop, for one field. \<^verbatim>\<open>newPage\<close> is \<^verbatim>\<open>undefined\<close> when the
  document has no page, and \<^verbatim>\<open>newPage.drawText\<close> then throws before the arguments
  are evaluated. Otherwise the options object is built, which embeds the font, and
  the text is drawn.
\<close>

definition drawField ::
  "('d, 'f) pdflib \<Rightarrow> real \<Rightarrow> real \<Rightarrow> row \<Rightarrow> (real \<times> real) option \<Rightarrow> 'd \<Rightarrow> TemplateField
     \<Rightarrow> ('f, 'd) exec" where
  "drawField lib width height row newPage newPdf field =
     (let text = js_or (js_get row (fieldName field)) (Str [])
      in case newPage of
           None \<Rightarrow> ([], None)
         | Some page \<Rightarrow>
             andThen (call EmbedFont (lib_embedFont lib newPdf)) (\<lambda>(newPdf1, font).
               let opts = \<lparr>optX = js_mul (js_div (fieldX field) (Fin 100)) (Fin width),
                           optY = js_sub (Fin height)
                                    (js_mul (js_div (fieldY field) (Fin 100)) (Fin height)),
                           optSize = 12,
                           optFont = font,
                           optColor = (0, 0, 0)\<rparr>
               in call (DrawText text opts) (lib_drawText lib newPdf1 text opts)))"

fun drawFields ::
  "('d, 'f) pdflib \<Rightarrow> real \<Rightarrow> real \<Rightarrow> row \<Rightarrow> (real \<times> real) option \<Rightarrow> 'd \<Rightarrow> TemplateField list
     \<Rightarrow> ('f, 'd) exec" where
  "drawFields lib width height row newPage newPdf [] = ([], Some newPdf)"
| "drawFields lib width height row newPage newPdf (field # fieldList) =
     andThen (drawField lib width height row newPage newPdf field)
       (\<lambda>newPdf1. drawFields lib width height row newPage newPdf1 fieldList)"

text \<open>The body of the outer loop, for one row.\<close>

definition processRow ::
  "('d, 'f) pdflib \<Rightarrow> byte list \<Rightarrow> TemplateField list \<Rightarrow> real \<Rightarrow> real \<Rightarrow> row
     \<Rightarrow> ('f, unit) exec" where
  "processRow lib bytes fieldList width height row =
     andThen (call (Load bytes) (lib_load lib bytes)) (\<lambda>newPdf.
       let newPage = lib_firstPageSize lib newPdf
       in andThen (drawFields lib width height row newPage newPdf fieldList) (\<lambda>newPdf1.
            andThen (call Save (lib_save lib newPdf1)) (\<lambda>pdfBytes.
              ([Download (downloadName row) pdfBytes], Some ()))))"

fun processRows ::
  "('d, 'f) pdflib \<Rightarrow> byte list \<Rightarrow> TemplateField list \<Rightarrow> real \<Rightarrow> real \<Rightarrow> row list
     \<Rightarrow> ('f, unit) exec" where
  "processRows lib bytes fieldList width height [] = ([], Some ())"
| "processRows lib bytes fieldList width height (row # rows) =
     andThen (processRow lib bytes fieldList width height row)
       (\<lambda>u. processRows lib bytes fieldList width height rows)"

text \<open>The \<^verbatim>\<open>try\<close> block.\<close>

definition tryBlock ::
  "('d, 'f) pdflib \<Rightarrow> byte list \<Rightarrow> TemplateField list \<Rightarrow> row list \<Rightarrow> ('f, unit) exec" where
  "tryBlock lib bytes fieldList rows =
     andThen (call (Load bytes) (lib_load lib bytes)) (\<lambda>pdfDoc.
       andThen (call EmbedFont (lib_embedFont lib pdfDoc)) (\<lambda>(pdfDoc1, font).
         case lib_firstPageSize lib pdfDoc1 of
           None \<Rightarrow> ([], None)
         | Some (width, height) \<Rightarrow> processRows lib bytes fieldList width height rows))"

text \<open>The \<^verbatim>\<open>catch\<close> clause: the error is logged, then the user is told.\<close>

definition catchClause :: "'f effect list" where
  "catchClause = [ConsoleError ''Error generating PDFs:'', Alert failureNotice]"

text \<open>\<^verbatim>\<open>generatePDFs\<close>: the guard, the \<^verbatim>\<open>try\<close> block and the \<^verbatim>\<open>catch\<close> clause.\<close>

definition generatePDFs :: "('d, 'f) pdflib \<Rightarrow> session \<Rightarrow> 'f effect list" where
  "generatePDFs lib s =
     (if templatePdfBytes s = None \<or> length (csvData s) = 0 \<or> length (templateFields s) = 0
      then [Alert preconditionNotice]
      else
        (case tryBlock lib (the (templatePdfBytes s)) (templateFields s) (csvData s) of
           (es, Some u) \<Rightarrow> es
         | (es, None) \<Rightarrow> es @ catchClause))"

text \<open>
  The size of the template's first page, as the \<^verbatim>\<open>try\<close> block obtains it before the
  loop: load the template, embed the font, take page 0. \<open>None\<close> when one of the three
  throws.
\<close>

definition templatePageSize :: "('d, 'f) pdflib \<Rightarrow> byte list \<Rightarrow> (real \<times> real) option" where
  "templatePageSize lib bytes =
     (case lib_load lib bytes of
        None \<Rightarrow> None
      | Some pdfDoc \<Rightarrow>
          (case lib_embedFont lib pdfDoc of
             None \<Rightarrow> None
           | Some (pdfDoc1, font) \<Rightarrow> lib_firstPageSize lib pdfDoc1))"

section \<open>Reading a trace of effects\<close>

fun alertOf :: "'f effect \<Rightarrow> string list" where
  "alertOf (Alert m) = [m]"
| "alertOf e = []"

fun loadOf :: "'f effect \<Rightarrow> byte list list" where
  "loadOf (Load b) = [b]"
| "loadOf e = []"

fun drawOf :: "'f effect \<Rightarrow> (jsval \<times> jsnum \<times> jsnum) list" where
  "drawOf (DrawText t opts) = [(t, optX opts, optY opts)]"
| "drawOf e = []"

fun downloadOf :: "'f effect \<Rightarrow> (string \<times> byte list) list" where
  "downloadOf (Download n b) = [(n, b)]"
| "downloadOf e = []"

definition alerts :: "'f effect list \<Rightarrow> string list" where
  "alerts es = concat (map alertOf es)"

definition loads :: "'f effect list \<Rightarrow> byte list list" where
  "loads es = concat (map loadOf es)"

definition draws :: "'f effect list \<Rightarrow> (jsval \<times> jsnum \<times> jsnum) list" where
  "draws es = concat (map drawOf es)"

definition downloads :: "'f effect list \<Rightarrow> (string \<times> byte list) list" where
  "downloads es = concat (map downloadOf es)"

section \<open>A small document library to run the handler on\<close>

text \<open>
  An executable instance of the library interface. A document is the bytes it was
  loaded from, the number of fonts embedded in it and the texts drawn on its first
  page; it has one page of 612 by 792 points. Loading rejects an empty buffer, drawing
  rejects a text that is not a string or that holds a character its font cannot encode
  (here: any character outside ASCII), and saving appends the drawn texts to the
  template's bytes.
\<close>

record simple_doc =
  docBytes :: "byte list"
  docFonts :: nat
  docTexts :: "(string \<times> jsnum \<times> jsnum) list"

definition simpleLib :: "(simple_doc, nat) pdflib" where
  "simpleLib =
     \<lparr>lib_load = (\<lambda>b. if b = [] then None
                       else Some \<lparr>docBytes = b, docFonts = 0, docTexts = []\<rparr>),
      lib_embedFont = (\<lambda>d. Some (d\<lparr>docFonts := Suc (docFonts d)\<rparr>, docFonts d)),
      lib_firstPageSize = (\<lambda>d. Some (612, 792)),
      lib_drawText = (\<lambda>d t opts.
         case t of
           Str v \<Rightarrow>
             if list_all (\<lambda>c. of_char c < (128 :: nat)) v
             then Some (d\<lparr>docTexts := docTexts d @ [(v, optX opts, optY opts)]\<rparr>)
             else None
         | Undefined \<Rightarrow> None
         | ProtoMember k \<Rightarrow> None),
      lib_save = (\<lambda>d. Some (docBytes d @ concat (map (\<lambda>(v, x, y). map of_char v) (docTexts d))))\<rparr>"

section \<open>Vocabulary of the results\<close>

text \<open>
  What one field of one row is expected to draw on a page of the given size: the
  text, and the two coordinates.
\<close>

abbreviation expectedDraw :: "real \<Rightarrow> real \<Rightarrow> row \<Rightarrow> TemplateField \<Rightarrow> jsval \<times> jsnum \<times> jsnum" where
  "expectedDraw w h row f \<equiv>
     (js_or (js_get row (fieldName f)) (Str []),
      js_mul (js_div (fieldX f) (Fin 100)) (Fin w),
      js_sub (Fin h) (js_mul (js_div (fieldY f) (Fin 100)) (Fin h)))"

text \<open>
  What stamping one field is expected to do to a document, written from the words of
  the specification: embed the font, then hand \<^verbatim>\<open>drawText\<close> the field's text (the empty
  string when the row has no value for it) with \<open>x = (field.x / 100) * w\<close>,
  \<open>y = h - (field.y / 100) * h\<close>, size 12 and black. \<open>None\<close> is a document that could
  not be produced.
\<close>

abbreviation expectedStamp ::
  "('d, 'f) pdflib \<Rightarrow> real \<Rightarrow> real \<Rightarrow> row \<Rightarrow> 'd option \<Rightarrow> TemplateField \<Rightarrow> 'd option" where
  "expectedStamp lib w h row doc f \<equiv>
     (case doc of
        None \<Rightarrow> None
      | Some d \<Rightarrow>
          (case lib_embedFont lib d of
             None \<Rightarrow> None
           | Some (d1, font) \<Rightarrow>
               lib_drawText lib d1 (js_or (js_get row (fieldName f)) (Str []))
                 \<lparr>optX = js_mul (js_div (fieldX f) (Fin 100)) (Fin w),
                  optY = js_sub (Fin h) (js_mul (js_div (fieldY f) (Fin 100)) (Fin h)),
                  optSize = 12,
                  optFont = font,
                  optColor = (0, 0, 0)\<rparr>))"

text \<open>Concrete inputs on which the results below are exercised.\<close>

definition viewingSession :: session where
  "viewingSession =
     \<lparr>pdfFile = Some ''blob:viewer'',
      templateFields = [\<lparr>fieldX = Fin 10, fieldY = Fin 10, fieldName = ''name''\<rparr>],
      csvData = [],
      isTemplateMode = False,
      templatePdfBytes = Some [37, 80, 68, 70]\<rparr>"

definition templateSession :: session where
  "templateSession =
     \<lparr>pdfFile = Some ''blob:template'',
      templateFields = [\<lparr>fieldX = Fin 50, fieldY = Fin 50, fieldName = ''name''\<rparr>],
      csvData = [[(''name'', ''Alice'')], [(''name'', ''Bob'')]],
      isTemplateMode = True,
      templatePdfBytes = Some [37, 80, 68, 70]\<rparr>"

text \<open>Two fields away from the centre of the page, and a row without the second column.\<close>

definition twoFieldSession :: session where
  "twoFieldSession =
     templateSession\<lparr>templateFields :=
                       [\<lparr>fieldX = Fin 10, fieldY = Fin 10, fieldName = ''name''\<rparr>,
                        \<lparr>fieldX = Fin 25, fieldY = Fin 75, fieldName = ''email''\<rparr>],
                     csvData :=
                       [[(''name'', ''Alice''), (''email'', ''a@b.c'')], [(''name'', ''Bob'')]]\<rparr>"

text \<open>A stored template of zero bytes.\<close>

definition emptyBufferSession :: session where
  "emptyBufferSession = templateSession\<lparr>templatePdfBytes := Some []\<rparr>"


text \<open>A data file with the header \<^verbatim>\<open>name,1\<close>.\<close>

definition numericHeaderSession :: session where
  "numericHeaderSession =
     templateSession\<lparr>csvData := [[(''name'', ''Alice''), (''1'', ''x'')]]\<rparr>"

text \<open>A field named \<^verbatim>\<open>toString\<close>, and a row without such a column.\<close>

definition inheritedNameSession :: session where
  "inheritedNameSession =
     templateSession\<lparr>templateFields := [\<lparr>fieldX = Fin 50, fieldY = Fin 50, fieldName = ''toString''\<rparr>],
                     csvData := [[(''name'', ''Bob'')]]\<rparr>"

text \<open>A field named \<^verbatim>\<open>constructor\<close>; a row where that column is empty, and a row
  without it.\<close>

definition emptyColumnSession :: session where
  "emptyColumnSession =
     templateSession\<lparr>templateFields := [\<lparr>fieldX = Fin 50, fieldY = Fin 50, fieldName = ''constructor''\<rparr>],
                     csvData := [[(''id'', ''7''), (''constructor'', [])]]\<rparr>"

definition missingColumnSession :: session where
  "missingColumnSession =
     templateSession\<lparr>templateFields := [\<lparr>fieldX = Fin 50, fieldY = Fin 50, fieldName = ''constructor''\<rparr>],
                     csvData := [[(''id'', ''7'')]]\<rparr>"

definition sampleClick :: MouseEvent where
  "sampleClick =
     \<lparr>clientX = 150, clientY = 260,
      currentTargetRect = \<lparr>rectLeft = 100, rectTop = 60, rectWidth = 200, rectHeight = 400\<rparr>\<rparr>"

section \<open>Field placement: results\<close>

lemma js_percent_formula:
  "js_mul (js_div (js_sub (Fin c) (Fin l)) (Fin w)) (Fin 100)
     = js_div (js_mul (Fin 100) (js_sub (Fin c) (Fin l))) (Fin w)"
  by (simp add: zero_less_mult_iff)

lemma js_percent_inside:
  assumes "l < c" and "c < l + w"
  shows "inPercentRange (js_mul (js_div (js_sub (Fin c) (Fin l)) (Fin w)) (Fin 100))"
proof -
  from assms have w: "0 < w" by linarith
  from assms have lo: "0 \<le> c - l" and hi: "c - l \<le> w" by linarith+
  have val: "js_mul (js_div (js_sub (Fin c) (Fin l)) (Fin w)) (Fin 100)
               = Fin ((c - l) / w * 100)"
    using w by simp
  from w lo have q0: "0 \<le> (c - l) / w" by simp
  from w hi have q1: "(c - l) / w \<le> 1" by simp
  have "0 \<le> (c - l) / w * 100"
    by (rule mult_nonneg_nonneg [OF q0]) simp
  moreover have "(c - l) / w * 100 \<le> 1 * 100"
    by (rule mult_right_mono [OF q1]) simp
  then have "(c - l) / w * 100 \<le> 100"
    by (simp only: mult_1)
  ultimately show ?thesis by (simp only: val inPercentRange.simps)
qed

text \<open>
  Claim C6. In template mode, with a non-empty name, a click appends one field whose
  coordinates are \<open>100 * (clickX - boxLeft) / boxWidth\<close> and
  \<open>100 * (clickY - boxTop) / boxHeight\<close>; when the click is strictly inside the
  box, both coordinates are finite and lie between 0 and 100.
\<close>

theorem addField_coordinates:
  assumes "isTemplateMode s" and "name \<noteq> []"
  shows "\<exists>x y. handleTemplateFieldAdd s event (Some name)
            = s\<lparr>templateFields := templateFields s @ [\<lparr>fieldX = x, fieldY = y, fieldName = name\<rparr>]\<rparr>
         \<and> x = js_div (js_mul (Fin 100)
                  (js_sub (Fin (clientX event)) (Fin (rectLeft (currentTargetRect event)))))
                  (Fin (rectWidth (currentTargetRect event)))
         \<and> y = js_div (js_mul (Fin 100)
                  (js_sub (Fin (clientY event)) (Fin (rectTop (currentTargetRect event)))))
                  (Fin (rectHeight (currentTargetRect event)))
         \<and> (strictlyInside event \<longrightarrow> inPercentRange x \<and> inPercentRange y)"
proof -
  let ?r = "currentTargetRect event"
  let ?x = "js_mul (js_div (js_sub (Fin (clientX event)) (Fin (rectLeft ?r)))
                           (Fin (rectWidth ?r))) (Fin 100)"
  let ?y = "js_mul (js_div (js_sub (Fin (clientY event)) (Fin (rectTop ?r)))
                           (Fin (rectHeight ?r))) (Fin 100)"
  have run: "handleTemplateFieldAdd s event (Some name)
      = s\<lparr>templateFields := templateFields s @ [\<lparr>fieldX = ?x, fieldY = ?y, fieldName = name\<rparr>]\<rparr>"
    using assms by (simp add: handleTemplateFieldAdd_def Let_def)
  have fx: "?x = js_div (js_mul (Fin 100)
                  (js_sub (Fin (clientX event)) (Fin (rectLeft ?r)))) (Fin (rectWidth ?r))"
    by (rule js_percent_formula)
  have fy: "?y = js_div (js_mul (Fin 100)
                  (js_sub (Fin (clientY event)) (Fin (rectTop ?r)))) (Fin (rectHeight ?r))"
    by (rule js_percent_formula)
  have rng: "strictlyInside event \<longrightarrow> inPercentRange ?x \<and> inPercentRange ?y"
  proof
    assume "strictlyInside event"
    then have "rectLeft ?r < clientX event" "clientX event < rectLeft ?r + rectWidth ?r"
      "rectTop ?r < clientY event" "clientY event < rectTop ?r + rectHeight ?r"
      by (simp_all add: strictlyInside_def Let_def)
    then show "inPercentRange ?x \<and> inPercentRange ?y"
      by (intro conjI js_percent_inside)
  qed
  from run fx fy rng show ?thesis by blast
qed

theorem addField_coordinates_witness:
  "isTemplateMode templateSession \<and> ''email'' \<noteq> [] \<and> strictlyInside sampleClick \<and>
   handleTemplateFieldAdd templateSession sampleClick (Some ''email'')
     = templateSession\<lparr>templateFields :=
         [\<lparr>fieldX = Fin 50, fieldY = Fin 50, fieldName = ''name''\<rparr>,
          \<lparr>fieldX = Fin 25, fieldY = Fin 50, fieldName = ''email''\<rparr>]\<rparr> \<and>
   inPercentRange (Fin 25) \<and> inPercentRange (Fin 50)"
  using addField_coordinates [of templateSession "''email''" sampleClick]
  by (simp add: templateSession_def sampleClick_def strictlyInside_def
        handleTemplateFieldAdd_def)

section \<open>Clicks outside template mode\<close>

text \<open>
  Claim C8. While template mode is not active, a click leaves the field list as it
  was: both the click on the viewer container and the handler itself, were it called.
\<close>

theorem click_without_template_mode:
  assumes "\<not> isTemplateMode s"
  shows "templateFields (viewerClick s event answer) = templateFields s
       \<and> templateFields (handleTemplateFieldAdd s event answer) = templateFields s"
  using assms by (simp add: viewerClick_def handleTemplateFieldAdd_def)

theorem click_without_template_mode_witness:
  "\<not> isTemplateMode viewingSession \<and>
   templateFields (viewerClick viewingSession sampleClick (Some ''email''))
     = [\<lparr>fieldX = Fin 10, fieldY = Fin 10, fieldName = ''name''\<rparr>] \<and>
   templateFields (handleTemplateFieldAdd viewingSession sampleClick (Some ''email''))
     = [\<lparr>fieldX = Fin 10, fieldY = Fin 10, fieldName = ''name''\<rparr>]"
  using click_without_template_mode [of viewingSession sampleClick "Some ''email''"]
  by (simp add: viewingSession_def)

section \<open>Uploads and the template bytes\<close>

text \<open>
  Claim C9. An upload while template mode is not active leaves the stored template
  bytes as they were, whatever was stored before; an upload while it is active stores
  the bytes of the first accepted file.
\<close>

theorem onDrop_template_bytes:
  "(\<not> isTemplateMode s \<longrightarrow>
      templatePdfBytes (onDrop createObjectURL s acceptedFiles) = templatePdfBytes s)
   \<and> (isTemplateMode s \<and> acceptedFiles \<noteq> [] \<longrightarrow>
      templatePdfBytes (onDrop createObjectURL s acceptedFiles)
        = Some (arrayBuffer (hd acceptedFiles)))"
  by (simp add: onDrop_def Let_def)

theorem onDrop_template_bytes_witness:
  "\<not> isTemplateMode viewingSession \<and>
   templatePdfBytes (onDrop (\<lambda>f. ''blob:new'') viewingSession [[1, 2, 3]])
     = Some [37, 80, 68, 70] \<and>
   isTemplateMode templateSession \<and> [[1, 2, 3 :: byte]] \<noteq> [] \<and>
   templatePdfBytes (onDrop (\<lambda>f. ''blob:new'') templateSession [[1, 2, 3]])
     = Some [1, 2, 3]"
  using onDrop_template_bytes [of viewingSession "\<lambda>f. ''blob:new''" "[[1, 2, 3]]"]
    onDrop_template_bytes [of templateSession "\<lambda>f. ''blob:new''" "[[1, 2, 3]]"]
  by (simp add: viewingSession_def templateSession_def arrayBuffer_def)

section \<open>Traces of the generation handler\<close>

subsection \<open>Sequencing and projections\<close>

lemma andThen_throw [simp]: "andThen (es, None) k = (es, None)"
  by (simp add: andThen_def)

lemma andThen_return [simp]: "andThen (es, Some a) k = (es @ fst (k a), snd (k a))"
  by (simp add: andThen_def split: prod.splits)

lemma fst_andThen:
  "fst (andThen m k) = fst m @ (case snd m of None \<Rightarrow> [] | Some a \<Rightarrow> fst (k a))"
  by (cases m; cases "snd m") auto

lemma snd_andThen:
  "snd (andThen m k) = (case snd m of None \<Rightarrow> None | Some a \<Rightarrow> snd (k a))"
  by (cases m; cases "snd m") auto

lemma alerts_append [simp]: "alerts (xs @ ys) = alerts xs @ alerts ys"
  by (simp add: alerts_def)
lemma loads_append [simp]: "loads (xs @ ys) = loads xs @ loads ys"
  by (simp add: loads_def)
lemma draws_append [simp]: "draws (xs @ ys) = draws xs @ draws ys"
  by (simp add: draws_def)
lemma downloads_append [simp]: "downloads (xs @ ys) = downloads xs @ downloads ys"
  by (simp add: downloads_def)

lemma alerts_Nil [simp]: "alerts [] = []" by (simp add: alerts_def)
lemma loads_Nil [simp]: "loads [] = []" by (simp add: loads_def)
lemma draws_Nil [simp]: "draws [] = []" by (simp add: draws_def)
lemma downloads_Nil [simp]: "downloads [] = []" by (simp add: downloads_def)

lemma alerts_Cons [simp]: "alerts (e # es) = alertOf e @ alerts es" by (simp add: alerts_def)
lemma loads_Cons [simp]: "loads (e # es) = loadOf e @ loads es" by (simp add: loads_def)
lemma draws_Cons [simp]: "draws (e # es) = drawOf e @ draws es" by (simp add: draws_def)
lemma downloads_Cons [simp]: "downloads (e # es) = downloadOf e @ downloads es" by (simp add: downloads_def)


lemma loads_concat: "loads (concat xss) = concat (map loads xss)"
  by (induction xss) simp_all

subsection \<open>One field\<close>

lemma drawField_quiet:
  "loads (fst (drawField lib w h row newPage d f)) = []"
  "alerts (fst (drawField lib w h row newPage d f)) = []"
  "downloads (fst (drawField lib w h row newPage d f)) = []"
  by (auto simp: drawField_def call_def andThen_def Let_def split: option.splits prod.splits)

lemma drawField_draws:
  "draws (fst (drawField lib w h row newPage d f)) = [] \<or>
   draws (fst (drawField lib w h row newPage d f)) = [expectedDraw w h row f]"
  by (auto simp: drawField_def call_def andThen_def Let_def split: option.splits prod.splits)

lemma drawField_draws_ok:
  "snd (drawField lib w h row newPage d f) = Some d' \<Longrightarrow>
   draws (fst (drawField lib w h row newPage d f)) = [expectedDraw w h row f]"
  by (auto simp: drawField_def call_def andThen_def Let_def split: option.splits prod.splits)

subsection \<open>All fields of a row\<close>

lemma drawFields_quiet:
  "loads (fst (drawFields lib w h row newPage d fl)) = [] \<and>
   alerts (fst (drawFields lib w h row newPage d fl)) = [] \<and>
   downloads (fst (drawFields lib w h row newPage d fl)) = []"
proof (induction fl arbitrary: d)
  case Nil
  show ?case by simp
next
  case (Cons f fl)
  show ?case
    by (cases "snd (drawField lib w h row newPage d f)")
       (simp_all add: fst_andThen drawField_quiet Cons.IH)
qed

lemma drawFields_draws:
  "prefix (draws (fst (drawFields lib w h row newPage d fl))) (map (expectedDraw w h row) fl) \<and>
   (snd (drawFields lib w h row newPage d fl) \<noteq> None \<longrightarrow>
      draws (fst (drawFields lib w h row newPage d fl)) = map (expectedDraw w h row) fl)"
proof (induction fl arbitrary: d)
  case Nil
  show ?case by simp
next
  case (Cons f fl)
  show ?case
  proof (cases "snd (drawField lib w h row newPage d f)")
    case None
    with drawField_draws [of lib w h row newPage d f] show ?thesis
      by (auto simp: fst_andThen snd_andThen)
  next
    case (Some d1)
    from drawField_draws_ok [OF Some] Some Cons.IH [of d1] show ?thesis
      by (simp add: fst_andThen snd_andThen)
  qed
qed

subsection \<open>One row\<close>


lemma processRow_draws:
  "prefix (draws (fst (processRow lib b fl w h row))) (map (expectedDraw w h row) fl) \<and>
   (snd (processRow lib b fl w h row) = Some () \<longrightarrow>
      draws (fst (processRow lib b fl w h row)) = map (expectedDraw w h row) fl)"
proof (cases "lib_load lib b")
  case None
  then show ?thesis by (simp add: processRow_def call_def)
next
  case (Some d)
  let ?F = "drawFields lib w h row (lib_firstPageSize lib d) d fl"
  show ?thesis
  proof (cases "snd ?F")
    case None
    with Some drawFields_draws [of lib w h row "lib_firstPageSize lib d" d fl] show ?thesis
      by (simp add: processRow_def call_def Let_def fst_andThen snd_andThen)
  next
    case (Some d1)
    with \<open>lib_load lib b = Some d\<close>
      drawFields_draws [of lib w h row "lib_firstPageSize lib d" d fl] show ?thesis
      by (cases "lib_save lib d1")
         (simp_all add: processRow_def call_def Let_def fst_andThen snd_andThen)
  qed
qed

lemma processRow_downloads:
  "(snd (processRow lib b fl w h row) = None \<longrightarrow>
      downloads (fst (processRow lib b fl w h row)) = []) \<and>
   (snd (processRow lib b fl w h row) = Some () \<longrightarrow>
      map fst (downloads (fst (processRow lib b fl w h row))) = [downloadName row])"
proof (cases "lib_load lib b")
  case None
  then show ?thesis by (simp add: processRow_def call_def)
next
  case (Some d)
  let ?F = "drawFields lib w h row (lib_firstPageSize lib d) d fl"
  show ?thesis
  proof (cases "snd ?F")
    case None
    with Some drawFields_quiet [of lib w h row "lib_firstPageSize lib d" d fl] show ?thesis
      by (simp add: processRow_def call_def Let_def fst_andThen snd_andThen)
  next
    case (Some d1)
    with \<open>lib_load lib b = Some d\<close>
      drawFields_quiet [of lib w h row "lib_firstPageSize lib d" d fl] show ?thesis
      by (cases "lib_save lib d1")
         (simp_all add: processRow_def call_def Let_def fst_andThen snd_andThen)
  qed
qed

subsection \<open>All rows\<close>

lemma processRows_throw:
  "snd (processRow lib b fl w h row) = None \<Longrightarrow>
   processRows lib b fl w h (row # rows) = processRow lib b fl w h row"
  by (cases "processRow lib b fl w h row") simp




lemma processRows_draws:
  "prefix (draws (fst (processRows lib b fl w h rows)))
          (concat (map (\<lambda>row. map (expectedDraw w h row) fl) rows)) \<and>
   (snd (processRows lib b fl w h rows) = Some () \<longrightarrow>
      draws (fst (processRows lib b fl w h rows))
        = concat (map (\<lambda>row. map (expectedDraw w h row) fl) rows))"
proof (induction rows)
  case Nil
  show ?case by simp
next
  case (Cons row rows)
  show ?case
  proof (cases "snd (processRow lib b fl w h row)")
    case None
    with processRow_draws [of lib b fl w h row] show ?thesis
      by (simp add: fst_andThen snd_andThen prefix_prefix)
  next
    case (Some u)
    with processRow_draws [of lib b fl w h row] Cons.IH show ?thesis
      by (simp add: fst_andThen snd_andThen)
  qed
qed

lemma processRows_downloads:
  "snd (processRows lib b fl w h rows) = Some () \<Longrightarrow>
   map fst (downloads (fst (processRows lib b fl w h rows))) = map downloadName rows"
proof (induction rows)
  case Nil
  show ?case by simp
next
  case (Cons row rows)
  from Cons.prems have ok: "snd (processRow lib b fl w h row) = Some ()"
    by (cases "snd (processRow lib b fl w h row)") (simp_all add: snd_andThen)
  with Cons.prems have "snd (processRows lib b fl w h rows) = Some ()"
    by (simp add: snd_andThen)
  with Cons.IH ok processRow_downloads [of lib b fl w h row] show ?case
    by (simp add: fst_andThen)
qed



subsection \<open>What the library is handed\<close>

lemma expectedStamp_None: "foldl (expectedStamp lib w h row) None fl = None"
  by (induction fl) simp_all

lemma drawField_result:
  "snd (drawField lib w h row (Some page) d f) = expectedStamp lib w h row (Some d) f"
  by (simp add: drawField_def call_def andThen_def Let_def split: option.splits prod.splits)

lemma drawField_no_page: "snd (drawField lib w h row None d f) = None"
  by (simp add: drawField_def)

lemma drawFields_result:
  "snd (drawFields lib w h row (Some page) d fl) = foldl (expectedStamp lib w h row) (Some d) fl"
proof (induction fl arbitrary: d)
  case Nil
  show ?case by simp
next
  case (Cons f fl)
  show ?case
  proof (cases "snd (drawField lib w h row (Some page) d f)")
    case None
    then have "expectedStamp lib w h row (Some d) f = None"
      by (simp only: drawField_result)
    with None show ?thesis
      by (simp add: snd_andThen expectedStamp_None del: foldl_Cons)
         (simp add: expectedStamp_None)
  next
    case (Some d1)
    then have "expectedStamp lib w h row (Some d) f = Some d1"
      by (simp only: drawField_result)
    with Some Cons.IH [of d1] show ?thesis
      by (simp add: snd_andThen)
  qed
qed

lemma processRow_result:
  assumes fl: "fl \<noteq> []" and ok: "snd (processRow lib b fl w h row) = Some ()"
  shows "map (\<lambda>dl. Some (snd dl)) (downloads (fst (processRow lib b fl w h row)))
           = [Option.bind (foldl (expectedStamp lib w h row) (lib_load lib b) fl) (lib_save lib)]"
proof (cases "lib_load lib b")
  case None
  with ok show ?thesis by (simp add: processRow_def call_def)
next
  case (Some d)
  note load = Some
  show ?thesis
  proof (cases "lib_firstPageSize lib d")
    case None
    from fl obtain f fs where "fl = f # fs" by (cases fl) auto
    with None load ok show ?thesis
      by (simp add: processRow_def call_def Let_def snd_andThen drawField_no_page)
  next
    case (Some page)
    let ?F = "drawFields lib w h row (Some page) d fl"
    show ?thesis
    proof (cases "snd ?F")
      case None
      with load Some ok show ?thesis
        by (simp add: processRow_def call_def Let_def snd_andThen)
    next
      case (Some d1)
      note stamped = Some
      from stamped have fold: "foldl (expectedStamp lib w h row) (Some d) fl = Some d1"
        by (simp only: drawFields_result)
      show ?thesis
      proof (cases "lib_save lib d1")
        case None
        with load \<open>lib_firstPageSize lib d = Some page\<close> stamped ok show ?thesis
          by (simp add: processRow_def call_def Let_def snd_andThen)
      next
        case (Some bytes)
        with load \<open>lib_firstPageSize lib d = Some page\<close> stamped fold
          drawFields_quiet [of lib w h row "Some page" d fl]
        show ?thesis
          by (simp add: processRow_def call_def Let_def fst_andThen)
      qed
    qed
  qed
qed

lemma processRows_result:
  assumes fl: "fl \<noteq> []"
  shows "prefix (map (\<lambda>dl. Some (snd dl)) (downloads (fst (processRows lib b fl w h rows))))
           (map (\<lambda>row. Option.bind (foldl (expectedStamp lib w h row) (lib_load lib b) fl)
                         (lib_save lib)) rows) \<and>
   (snd (processRows lib b fl w h rows) = Some () \<longrightarrow>
      map (\<lambda>dl. Some (snd dl)) (downloads (fst (processRows lib b fl w h rows)))
        = map (\<lambda>row. Option.bind (foldl (expectedStamp lib w h row) (lib_load lib b) fl)
                         (lib_save lib)) rows)"
proof (induction rows)
  case Nil
  show ?case by simp
next
  case (Cons row rows)
  show ?case
  proof (cases "snd (processRow lib b fl w h row)")
    case None
    with processRow_downloads [of lib b fl w h row] show ?thesis
      by (simp add: fst_andThen snd_andThen)
  next
    case (Some u)
    then have "snd (processRow lib b fl w h row) = Some ()" by simp
    from processRow_result [OF fl this] Some Cons.IH show ?thesis
      by (simp add: fst_andThen snd_andThen)
  qed
qed

subsection \<open>The handler\<close>

lemma generatePDFs_guard:
  "templatePdfBytes s = None \<or> csvData s = [] \<or> templateFields s = [] \<Longrightarrow>
   generatePDFs lib s = [Alert preconditionNotice]"
  by (auto simp: generatePDFs_def)

lemma tryBlock_no_page:
  "templatePageSize lib b = None \<Longrightarrow>
   snd (tryBlock lib b fl rows) = None \<and>
   (fst (tryBlock lib b fl rows) = [Load b] \<or> fst (tryBlock lib b fl rows) = [Load b, EmbedFont])"
  by (auto simp: templatePageSize_def tryBlock_def call_def andThen_def
           split: option.splits prod.splits)

lemma tryBlock_page:
  "templatePageSize lib b = Some (w, h) \<Longrightarrow>
   tryBlock lib b fl rows
     = ([Load b, EmbedFont] @ fst (processRows lib b fl w h rows),
        snd (processRows lib b fl w h rows))"
  by (auto simp: templatePageSize_def tryBlock_def call_def andThen_def
           split: option.splits prod.splits)

lemma generatePDFs_no_page:
  assumes "templatePdfBytes s = Some b" "csvData s \<noteq> []" "templateFields s \<noteq> []"
    and "templatePageSize lib b = None"
  shows "generatePDFs lib s = [Load b] @ catchClause \<or>
         generatePDFs lib s = [Load b, EmbedFont] @ catchClause"
  using assms(1-3) tryBlock_no_page [OF assms(4), of "templateFields s" "csvData s"]
  by (cases "tryBlock lib b (templateFields s) (csvData s)")
     (auto simp: generatePDFs_def)

lemma generatePDFs_page:
  assumes "templatePdfBytes s = Some b" "csvData s \<noteq> []" "templateFields s \<noteq> []"
    and "templatePageSize lib b = Some (w, h)"
  shows "generatePDFs lib s
           = [Load b, EmbedFont] @ fst (processRows lib b (templateFields s) w h (csvData s))
             @ (case snd (processRows lib b (templateFields s) w h (csvData s)) of
                  None \<Rightarrow> catchClause | Some u \<Rightarrow> [])"
  using assms(1-3)
  by (cases "snd (processRows lib b (templateFields s) w h (csvData s))")
     (simp_all add: generatePDFs_def tryBlock_page [OF assms(4)])

lemma catchClause_projections:
  "alerts catchClause = [failureNotice]" "loads catchClause = []"
  "draws catchClause = []" "downloads catchClause = []"
  by (simp_all add: catchClause_def)

subsection \<open>Running the handler on concrete inputs\<close>

lemmas run_defs =
  generatePDFs_def tryBlock_def processRow_def drawField_def call_def andThen_def
  catchClause_def simpleLib_def Let_def js_get_def js_or_def objectPrototypeKeys_def
  downloadName_def objectKeys_def isArrayIndex_def isDigit_def indexValue_def
  templateSession_def templatePageSize_def

section \<open>The guard of the generation handler\<close>

text \<open>
  Claim C3, as the code has it. If no template bytes are stored (\<^verbatim>\<open>templatePdfBytes\<close> is
  \<^verbatim>\<open>null\<close>), or the field list is empty, or the row list is empty, the handler shows
  the precondition notice and does nothing else: nothing is loaded, nothing is drawn,
  nothing is downloaded.
\<close>

theorem generate_precondition_notice:
  assumes "templatePdfBytes s = None \<or> templateFields s = [] \<or> csvData s = []"
  shows "generatePDFs lib s = [Alert preconditionNotice]
       \<and> loads (generatePDFs lib s) = []
       \<and> draws (generatePDFs lib s) = []
       \<and> downloads (generatePDFs lib s) = []"
proof -
  from assms have "generatePDFs lib s = [Alert preconditionNotice]"
    by (intro generatePDFs_guard) blast
  then show ?thesis by simp
qed

theorem generate_precondition_notice_witness:
  "csvData viewingSession = [] \<and>
   generatePDFs simpleLib viewingSession = [Alert preconditionNotice] \<and>
   loads (generatePDFs simpleLib viewingSession) = []"
  using generate_precondition_notice [of viewingSession simpleLib]
  by (simp add: viewingSession_def)

text \<open>
  Claim C3 as stated speaks of empty template bytes. A stored buffer of zero bytes is
  not \<^verbatim>\<open>null\<close>: the guard lets it through, the buffer is handed to the loader, and the
  notice shown is the failure notice of the \<^verbatim>\<open>catch\<close> clause.
\<close>

theorem empty_buffer_is_loaded:
  "templatePdfBytes emptyBufferSession = Some [] \<and>
   generatePDFs simpleLib emptyBufferSession
     = [Load [], ConsoleError ''Error generating PDFs:'', Alert failureNotice] \<and>
   generatePDFs simpleLib emptyBufferSession \<noteq> [Alert preconditionNotice] \<and>
   loads (generatePDFs simpleLib emptyBufferSession) = [[]]"
  by (simp add: run_defs emptyBufferSession_def)

section \<open>Exceptions abort the batch\<close>




section \<open>One fresh document per row\<close>



section \<open>Where the texts are drawn\<close>

text \<open>
  Claim C2. With \<open>w\<close> and \<open>h\<close> the size of the template's first page: the calls
  of \<^verbatim>\<open>drawText\<close> are, in order, those of every field of every row, each at
  \<open>x = (field.x / 100) * w\<close> and \<open>y = h - (field.y / 100) * h\<close> (all of them when the
  run shows no notice, an initial part when it was aborted); these very options are
  what the library's \<^verbatim>\<open>drawText\<close> is handed for each field; and the bytes downloaded
  for a row are the saved form of the document obtained from a fresh load of the
  template by stamping every field at that position. A field at 50, 50 is drawn at
  \<open>0.5 w\<close>, \<open>0.5 h\<close>.
\<close>

theorem draw_positions:
  assumes bytes: "templatePdfBytes s = Some b"
    and rows: "csvData s \<noteq> []"
    and fl: "templateFields s \<noteq> []"
    and page: "templatePageSize lib b = Some (w, h)"
  shows "prefix (draws (generatePDFs lib s))
           (concat (map (\<lambda>row. map (\<lambda>f.
              (js_or (js_get row (fieldName f)) (Str []),
               js_mul (js_div (fieldX f) (Fin 100)) (Fin w),
               js_sub (Fin h) (js_mul (js_div (fieldY f) (Fin 100)) (Fin h))))
              (templateFields s)) (csvData s)))
     \<and> (alerts (generatePDFs lib s) = [] \<longrightarrow>
          draws (generatePDFs lib s)
            = concat (map (\<lambda>row. map (\<lambda>f.
                (js_or (js_get row (fieldName f)) (Str []),
                 js_mul (js_div (fieldX f) (Fin 100)) (Fin w),
                 js_sub (Fin h) (js_mul (js_div (fieldY f) (Fin 100)) (Fin h))))
                (templateFields s)) (csvData s)))
     \<and> (\<forall>row pg d d1 font f.
           lib_embedFont lib d = Some (d1, font) \<longrightarrow>
           snd (drawField lib w h row (Some pg) d f)
             = lib_drawText lib d1 (js_or (js_get row (fieldName f)) (Str []))
                 \<lparr>optX = js_mul (js_div (fieldX f) (Fin 100)) (Fin w),
                  optY = js_sub (Fin h) (js_mul (js_div (fieldY f) (Fin 100)) (Fin h)),
                  optSize = 12, optFont = font, optColor = (0, 0, 0)\<rparr>)
     \<and> prefix (map (\<lambda>dl. Some (snd dl)) (downloads (generatePDFs lib s)))
          (map (\<lambda>row. Option.bind
                  (foldl (expectedStamp lib w h row) (lib_load lib b) (templateFields s))
                  (lib_save lib)) (csvData s))
     \<and> (alerts (generatePDFs lib s) = [] \<longrightarrow>
          map (\<lambda>dl. Some (snd dl)) (downloads (generatePDFs lib s))
            = map (\<lambda>row. Option.bind
                  (foldl (expectedStamp lib w h row) (lib_load lib b) (templateFields s))
                  (lib_save lib)) (csvData s))
     \<and> js_mul (js_div (Fin 50) (Fin 100)) (Fin w) = Fin (0.5 * w)
     \<and> js_sub (Fin h) (js_mul (js_div (Fin 50) (Fin 100)) (Fin h)) = Fin (0.5 * h)"
proof -
  let ?R = "processRows lib b (templateFields s) w h (csvData s)"
  have gen: "generatePDFs lib s
      = [Load b, EmbedFont] @ fst ?R @ (case snd ?R of None \<Rightarrow> catchClause | Some u \<Rightarrow> [])"
    by (rule generatePDFs_page [OF bytes rows fl page])
  have dr: "draws (generatePDFs lib s) = draws (fst ?R)"
    by (cases "snd ?R") (simp_all add: gen catchClause_projections)
  have dl: "downloads (generatePDFs lib s) = downloads (fst ?R)"
    by (cases "snd ?R") (simp_all add: gen catchClause_projections)
  have ok: "alerts (generatePDFs lib s) = [] \<longrightarrow> snd ?R = Some ()"
    by (cases "snd ?R") (simp_all add: gen catchClause_projections)
  have logged: "prefix (draws (generatePDFs lib s))
           (concat (map (\<lambda>row. map (expectedDraw w h row) (templateFields s)) (csvData s)))
     \<and> (alerts (generatePDFs lib s) = [] \<longrightarrow>
          draws (generatePDFs lib s)
            = concat (map (\<lambda>row. map (expectedDraw w h row) (templateFields s)) (csvData s)))"
    using processRows_draws [of lib b "templateFields s" w h "csvData s"] dr ok by simp
  have handed: "\<forall>row pg d d1 font f.
           lib_embedFont lib d = Some (d1, font) \<longrightarrow>
           snd (drawField lib w h row (Some pg) d f)
             = lib_drawText lib d1 (js_or (js_get row (fieldName f)) (Str []))
                 \<lparr>optX = js_mul (js_div (fieldX f) (Fin 100)) (Fin w),
                  optY = js_sub (Fin h) (js_mul (js_div (fieldY f) (Fin 100)) (Fin h)),
                  optSize = 12, optFont = font, optColor = (0, 0, 0)\<rparr>"
    by (simp add: drawField_result)
  have stamped: "prefix (map (\<lambda>dl. Some (snd dl)) (downloads (generatePDFs lib s)))
          (map (\<lambda>row. Option.bind
                  (foldl (expectedStamp lib w h row) (lib_load lib b) (templateFields s))
                  (lib_save lib)) (csvData s))
     \<and> (alerts (generatePDFs lib s) = [] \<longrightarrow>
          map (\<lambda>dl. Some (snd dl)) (downloads (generatePDFs lib s))
            = map (\<lambda>row. Option.bind
                  (foldl (expectedStamp lib w h row) (lib_load lib b) (templateFields s))
                  (lib_save lib)) (csvData s))"
    using processRows_result [OF fl, of lib b w h "csvData s"] ok
    by (simp only: dl) blast
  have centre: "js_mul (js_div (Fin 50) (Fin 100)) (Fin w) = Fin (0.5 * w)
     \<and> js_sub (Fin h) (js_mul (js_div (Fin 50) (Fin 100)) (Fin h)) = Fin (0.5 * h)"
    by simp
  from logged handed stamped centre show ?thesis by blast
qed

theorem draw_positions_witness:
  "templatePdfBytes twoFieldSession = Some [37, 80, 68, 70] \<and>
   csvData twoFieldSession \<noteq> [] \<and>
   templateFields twoFieldSession \<noteq> [] \<and>
   templatePageSize simpleLib [37, 80, 68, 70] = Some (612, 792) \<and>
   alerts (generatePDFs simpleLib twoFieldSession) = [] \<and>
   draws (generatePDFs simpleLib twoFieldSession)
     = [(Str ''Alice'', Fin (306 / 5), Fin (3564 / 5)), (Str ''a@b.c'', Fin 153, Fin 198),
        (Str ''Bob'', Fin (306 / 5), Fin (3564 / 5)), (Str [], Fin 153, Fin 198)] \<and>
   snd (drawFields simpleLib 612 792 [(''name'', ''Alice''), (''email'', ''a@b.c'')]
          (Some (612, 792)) \<lparr>docBytes = [37, 80, 68, 70], docFonts = 0, docTexts = []\<rparr>
          (templateFields twoFieldSession))
     = Some \<lparr>docBytes = [37, 80, 68, 70], docFonts = 2,
             docTexts = [(''Alice'', Fin (306 / 5), Fin (3564 / 5)),
                         (''a@b.c'', Fin 153, Fin 198)]\<rparr> \<and>
   snd (drawField simpleLib 612 792 [(''name'', ''Bob'')] (Some (612, 792))
          \<lparr>docBytes = [37, 80, 68, 70], docFonts = 0, docTexts = []\<rparr>
          \<lparr>fieldX = Fin 10, fieldY = Fin 10, fieldName = ''name''\<rparr>)
     = Some \<lparr>docBytes = [37, 80, 68, 70], docFonts = 1,
             docTexts = [(''Bob'', Fin (306 / 5), Fin (3564 / 5))]\<rparr> \<and>
   map (\<lambda>dl. Some (snd dl)) (downloads (generatePDFs simpleLib twoFieldSession))
     = [Some [37, 80, 68, 70, 65, 108, 105, 99, 101, 97, 64, 98, 46, 99],
        Some [37, 80, 68, 70, 66, 111, 98]]"
proof -
  have h1: "templatePdfBytes twoFieldSession = Some [37, 80, 68, 70]"
    and h2: "csvData twoFieldSession \<noteq> []"
    and h3: "templateFields twoFieldSession \<noteq> []"
    by (simp_all add: twoFieldSession_def templateSession_def)
  have h4: "templatePageSize simpleLib [37, 80, 68, 70] = Some (612, 792)"
    by (simp add: templatePageSize_def simpleLib_def)
  have quiet: "alerts (generatePDFs simpleLib twoFieldSession) = []"
    by (simp add: run_defs twoFieldSession_def)
  note run = draw_positions [OF h1 h2 h3 h4]
  from run quiet
  have "draws (generatePDFs simpleLib twoFieldSession)
     = concat (map (\<lambda>row. map (\<lambda>f.
                (js_or (js_get row (fieldName f)) (Str []),
                 js_mul (js_div (fieldX f) (Fin 100)) (Fin 612),
                 js_sub (Fin 792) (js_mul (js_div (fieldY f) (Fin 100)) (Fin 792))))
                (templateFields twoFieldSession)) (csvData twoFieldSession))"
    by blast
  then have c1: "draws (generatePDFs simpleLib twoFieldSession)
     = [(Str ''Alice'', Fin (306 / 5), Fin (3564 / 5)), (Str ''a@b.c'', Fin 153, Fin 198),
        (Str ''Bob'', Fin (306 / 5), Fin (3564 / 5)), (Str [], Fin 153, Fin 198)]"
    by (simp add: twoFieldSession_def templateSession_def js_get_def js_or_def
          objectPrototypeKeys_def)
  have c2: "snd (drawFields simpleLib 612 792 [(''name'', ''Alice''), (''email'', ''a@b.c'')]
          (Some (612, 792)) \<lparr>docBytes = [37, 80, 68, 70], docFonts = 0, docTexts = []\<rparr>
          (templateFields twoFieldSession))
     = Some \<lparr>docBytes = [37, 80, 68, 70], docFonts = 2,
             docTexts = [(''Alice'', Fin (306 / 5), Fin (3564 / 5)),
                         (''a@b.c'', Fin 153, Fin 198)]\<rparr>"
    by (simp add: run_defs twoFieldSession_def)
  have emb: "lib_embedFont simpleLib \<lparr>docBytes = [37, 80, 68, 70], docFonts = 0, docTexts = []\<rparr>
     = Some (\<lparr>docBytes = [37, 80, 68, 70], docFonts = 1, docTexts = []\<rparr>, 0)"
    by (simp add: simpleLib_def)
  from run emb
  have "snd (drawField simpleLib 612 792 [(''name'', ''Bob'')] (Some (612, 792))
          \<lparr>docBytes = [37, 80, 68, 70], docFonts = 0, docTexts = []\<rparr>
          \<lparr>fieldX = Fin 10, fieldY = Fin 10, fieldName = ''name''\<rparr>)
     = lib_drawText simpleLib \<lparr>docBytes = [37, 80, 68, 70], docFonts = 1, docTexts = []\<rparr>
         (js_or (js_get [(''name'', ''Bob'')]
                   (fieldName \<lparr>fieldX = Fin 10, fieldY = Fin 10, fieldName = ''name''\<rparr>)) (Str []))
         \<lparr>optX = js_mul (js_div (fieldX \<lparr>fieldX = Fin 10, fieldY = Fin 10, fieldName = ''name''\<rparr>)
                            (Fin 100)) (Fin 612),
          optY = js_sub (Fin 792)
                   (js_mul (js_div (fieldY \<lparr>fieldX = Fin 10, fieldY = Fin 10, fieldName = ''name''\<rparr>)
                              (Fin 100)) (Fin 792)),
          optSize = 12, optFont = 0, optColor = (0, 0, 0)\<rparr>"
    by blast
  then have c3: "snd (drawField simpleLib 612 792 [(''name'', ''Bob'')] (Some (612, 792))
          \<lparr>docBytes = [37, 80, 68, 70], docFonts = 0, docTexts = []\<rparr>
          \<lparr>fieldX = Fin 10, fieldY = Fin 10, fieldName = ''name''\<rparr>)
     = Some \<lparr>docBytes = [37, 80, 68, 70], docFonts = 1,
             docTexts = [(''Bob'', Fin (306 / 5), Fin (3564 / 5))]\<rparr>"
    by (simp add: simpleLib_def js_get_def js_or_def)
  from run quiet
  have "map (\<lambda>dl. Some (snd dl)) (downloads (generatePDFs simpleLib twoFieldSession))
     = map (\<lambda>row. Option.bind
              (foldl (expectedStamp simpleLib 612 792 row) (lib_load simpleLib [37, 80, 68, 70])
                 (templateFields twoFieldSession))
              (lib_save simpleLib)) (csvData twoFieldSession)"
    by blast
  then have c4: "map (\<lambda>dl. Some (snd dl)) (downloads (generatePDFs simpleLib twoFieldSession))
     = [Some [37, 80, 68, 70, 65, 108, 105, 99, 101, 97, 64, 98, 46, 99],
        Some [37, 80, 68, 70, 66, 111, 98]]"
    by (simp add: twoFieldSession_def templateSession_def simpleLib_def js_get_def js_or_def
          objectPrototypeKeys_def)
  show ?thesis
    by (intro conjI h1 h2 h3 h4 quiet c1 c2 c3 c4)
qed

section \<open>The text of a field\<close>

text \<open>
  \<^verbatim>\<open>row[field.fieldName] || ''\<close>: a column that is present and not empty gives its
  value; a column that is present and empty gives the empty string; a missing column
  gives the empty string unless the field's name is one that every object inherits,
  in which case the inherited member is what is handed to \<^verbatim>\<open>drawText\<close>.
\<close>

lemma fieldText_missing_column:
  "map_of row name = None \<Longrightarrow> name \<notin> set objectPrototypeKeys \<Longrightarrow>
   js_or (js_get row name) (Str []) = Str []"
  by (simp add: js_get_def js_or_def)

lemma fieldText_inherited:
  "map_of row name = None \<Longrightarrow> name \<in> set objectPrototypeKeys \<Longrightarrow>
   js_or (js_get row name) (Str []) = ProtoMember name"
  by (simp add: js_get_def js_or_def)

lemma fieldText_empty_column:
  "map_of row name = Some [] \<Longrightarrow> js_or (js_get row name) (Str []) = Str []"
  by (simp add: js_get_def js_or_def)

lemma fieldText_value:
  "map_of row name = Some v \<Longrightarrow> v \<noteq> [] \<Longrightarrow> js_or (js_get row name) (Str []) = Str v"
  by (simp add: js_get_def js_or_def)

section \<open>The names of the downloads\<close>

text \<open>
  A run that shows no notice downloads one document per row, in the order of the rows,
  each under the name computed from its row. When no key of the row is an array index,
  that name is built from the value of the row's first column.
\<close>

lemma generate_download_names:
  assumes "templatePdfBytes s = Some b" "csvData s \<noteq> []" "templateFields s \<noteq> []"
    and "alerts (generatePDFs lib s) = []"
  shows "map fst (downloads (generatePDFs lib s)) = map downloadName (csvData s)"
proof (cases "templatePageSize lib b")
  case None
  from generatePDFs_no_page [OF assms(1-3) None] assms(4) show ?thesis
    by (auto simp: catchClause_projections)
next
  case (Some wh)
  obtain w h where page: "templatePageSize lib b = Some (w, h)"
    using Some by (cases wh) simp
  let ?R = "processRows lib b (templateFields s) w h (csvData s)"
  note gen = generatePDFs_page [OF assms(1-3) page]
  from assms(4) have ok: "snd ?R = Some ()"
    by (cases "snd ?R") (simp_all add: gen catchClause_projections)
  with processRows_downloads [OF ok] show ?thesis
    by (simp add: gen)
qed

lemma downloadName_first_column:
  assumes "list_all (\<lambda>k. \<not> isArrayIndex k) (map fst ((k, v) # rest))"
  shows "downloadName ((k, v) # rest) = ''generated_'' @ v @ ''.pdf''"
proof -
  from assms have none: "filter isArrayIndex (map fst ((k, v) # rest)) = []"
    by (auto simp: filter_empty_conv list_all_iff)
  from assms have "filter (\<lambda>k. \<not> isArrayIndex k) (map fst ((k, v) # rest)) = map fst ((k, v) # rest)"
    by (auto simp: filter_id_conv list_all_iff)
  with none have "objectKeys ((k, v) # rest) = k # map fst rest"
    by (simp add: objectKeys_def Let_def del: filter.simps list.map)
       simp
  then show ?thesis
    by (simp add: downloadName_def js_get_def)
qed

section \<open>Runs in which the handler departs from the specification\<close>

text \<open>
  Claim C5 at a field named \<^verbatim>\<open>toString\<close> and the row \<^verbatim>\<open>{"name": "Bob"}\<close>: the row has
  no such column, the lookup finds the function inherited from \<^verbatim>\<open>Object.prototype\<close>,
  that function (not the empty string) is handed to \<^verbatim>\<open>drawText\<close>, which rejects it, and
  the batch is aborted.
\<close>

theorem inherited_name_is_drawn:
  "map_of [(''name'', ''Bob'')] ''toString'' = None \<and>
   generatePDFs simpleLib inheritedNameSession
     = [Load [37, 80, 68, 70], EmbedFont, Load [37, 80, 68, 70], EmbedFont,
        DrawText (ProtoMember ''toString'')
          \<lparr>optX = Fin 306, optY = Fin 396, optSize = 12, optFont = 0, optColor = (0, 0, 0)\<rparr>,
        ConsoleError ''Error generating PDFs:'', Alert failureNotice]"
  by (simp add: run_defs inheritedNameSession_def)

text \<open>
  Claim C7 at a data file with the header \<^verbatim>\<open>name,1\<close> and the record \<^verbatim>\<open>Alice,x\<close>: the
  row's first column is \<^verbatim>\<open>name\<close>, but \<^verbatim>\<open>Object.keys\<close> lists the key \<^verbatim>\<open>1\<close> first, and
  the document is downloaded as \<^verbatim>\<open>generated_x.pdf\<close>, not \<^verbatim>\<open>generated_Alice.pdf\<close>.
\<close>

theorem numeric_header_names_download:
  "csvData numericHeaderSession = [[(''name'', ''Alice''), (''1'', ''x'')]] \<and>
   objectKeys [(''name'', ''Alice''), (''1'', ''x'')] = [''1'', ''name''] \<and>
   downloads (generatePDFs simpleLib numericHeaderSession)
     = [(''generated_x.pdf'', [37, 80, 68, 70, 65, 108, 105, 99, 101])]"
  by (simp add: run_defs numericHeaderSession_def)

text \<open>
  Claim C10 at a field named \<^verbatim>\<open>constructor\<close>: for a row whose \<^verbatim>\<open>constructor\<close> column is
  empty the empty string is drawn and the document is produced; for the same row
  without that column the inherited member is handed to \<^verbatim>\<open>drawText\<close> and the batch is
  aborted. The two are not alike.
\<close>

theorem empty_and_missing_column_differ:
  "draws (generatePDFs simpleLib emptyColumnSession) = [(Str [], Fin 306, Fin 396)] \<and>
   alerts (generatePDFs simpleLib emptyColumnSession) = [] \<and>
   draws (generatePDFs simpleLib missingColumnSession)
     = [(ProtoMember ''constructor'', Fin 306, Fin 396)] \<and>
   alerts (generatePDFs simpleLib missingColumnSession) = [failureNotice]"
  by (simp add: run_defs emptyColumnSession_def missingColumnSession_def)

end
